theory Spec2Isabelle
  imports Main
begin

unbundle bit_operations_syntax

section \<open>Errors and results\<close>

text \<open>
  Source file: \<^verbatim>\<open>src/torii/hdl/ast.py\<close>. Every \<^verbatim>\<open>raise\<close> of the source is a
  value of \<open>error\<close>; a function that can raise returns \<open>error + 'a\<close> with \<open>Inl\<close> for
  the exception. \<open>FrozenArrayError loc\<close> is the \<^verbatim>\<open>ValueError\<close> of
  \<^verbatim>\<open>Array._check_mutability\<close>, whose message is formatted from the recorded location
  \<^verbatim>\<open>_proxy_at\<close>; the plain \<open>ValueError\<close> stands for every other \<^verbatim>\<open>ValueError\<close>.
\<close>

type_synonym src_loc = "string \<times> int"

datatype error =
    TypeError
  | ValueError
  | IndexError
  | SyntaxError
  | NotImplementedError
  | AssertionError
  | OverflowError
  | FrozenArrayError src_loc

definition bind_err :: "error + 'a \<Rightarrow> ('a \<Rightarrow> error + 'b) \<Rightarrow> error + 'b" where
  "bind_err r f = (case r of Inl e \<Rightarrow> Inl e | Inr x \<Rightarrow> f x)"

text \<open>The first exception of a left-to-right evaluation of a list of results.\<close>

fun collect :: "(error + 'a) list \<Rightarrow> error + 'a list" where
  "collect [] = Inr []"
| "collect (Inl e # rs) = Inl e"
| "collect (Inr x # rs) = (case collect rs of Inl e \<Rightarrow> Inl e | Inr xs \<Rightarrow> Inr (x # xs))"

section \<open>Shape\<close>

text \<open>
  \<^verbatim>\<open>class Shape\<close>: the constructor refuses a negative width, so a \<open>Shape\<close> that exists
  has a natural number as width; \<open>Shape_init\<close> is \<^verbatim>\<open>Shape.__init__\<close> on a Python integer.
\<close>

datatype Shape = Shape (width: nat) (signed: bool)

definition Shape_init :: "int \<Rightarrow> bool \<Rightarrow> error + Shape" where
  "Shape_init w s = (if w < 0 then Inl TypeError else Inr (Shape (nat w) s))"

definition unsigned_shape :: "nat \<Rightarrow> Shape" where
  "unsigned_shape w = Shape w False"

definition signed_shape :: "nat \<Rightarrow> Shape" where
  "signed_shape w = Shape w True"

text \<open>
  The integers a shape can hold (two's complement): \<open>0 \<le> v < 2^w\<close> unsigned,
  \<open>-2^(w-1) \<le> v < 2^(w-1)\<close> signed, written without \<open>w - 1\<close> so that width 0 holds only 0.
\<close>

definition representable :: "Shape \<Rightarrow> int \<Rightarrow> bool" where
  "representable sh v =
     (if signed sh then - (2 ^ width sh) \<le> 2 * v \<and> 2 * v < 2 ^ width sh
      else 0 \<le> v \<and> v < 2 ^ width sh)"

subsection \<open>bits_for\<close>

fun bit_length :: "nat \<Rightarrow> nat" where
  "bit_length n = (if n = 0 then 0 else Suc (bit_length (n div 2)))"

declare bit_length.simps [simp del]

definition log2_int :: "int \<Rightarrow> nat" where
  "log2_int n = (if n = 0 then 0 else bit_length (nat (n - 1)))"

text \<open>
  Modelled from the spec: \<^verbatim>\<open>bits_for\<close> is imported from \<^verbatim>\<open>torii.util.units\<close>, which is not
  among the source files. The sources use it as the number of bits an integer needs
  (\<^verbatim>\<open>Const\<close>: "defaults to the minimum possible width and signedness of value";
  \<^verbatim>\<open>Signal\<close>: "Reset value requires {reset_width} bits to represent"; the docstring of
  \<^verbatim>\<open>Value.shape\<close> gives \<^verbatim>\<open>Const(0xaa).shape()\<close> the width 8), with one more bit for the
  sign when the second argument asks for it or the integer is not positive.
\<close>

definition bits_for :: "int \<Rightarrow> bool \<Rightarrow> nat" where
  "bits_for n require_sign_bit =
     (if n > 0 then log2_int (n + 1) + (if require_sign_bit then 1 else 0)
      else log2_int (- n) + 1)"

subsection \<open>Ranges and Shape.cast\<close>

text \<open>
  Python's \<^verbatim>\<open>range(start, stop, step)\<close>; a range object has \<open>step \<noteq> 0\<close>. \<open>range_len\<close>
  is the number of its elements and \<open>range_elems\<close> the elements in order. \<^verbatim>\<open>len(r)\<close> is
  \<open>py_len\<close>: it raises \<^verbatim>\<open>OverflowError\<close> when the number of elements is greater than
  \<^verbatim>\<open>sys.maxsize\<close>, which is \<open>2 ^ 63 - 1\<close> on a 64-bit CPython.
\<close>

datatype py_range = Range (range_start: int) (range_stop: int) (range_step: int)

definition range_len :: "py_range \<Rightarrow> nat" where
  "range_len r =
     (if range_step r > 0 \<and> range_start r < range_stop r then nat (1 + (range_stop r - 1 - range_start r) div range_step r)
      else if range_step r < 0 \<and> range_start r > range_stop r then nat (1 + (range_start r - 1 - range_stop r) div (- range_step r))
      else 0)"

definition sys_maxsize :: nat where
  "sys_maxsize = 2 ^ 63 - 1"

definition py_len :: "py_range \<Rightarrow> error + nat" where
  "py_len r = (if range_len r > sys_maxsize then Inl OverflowError else Inr (range_len r))"

definition range_elems :: "py_range \<Rightarrow> int list" where
  "range_elems r = map (\<lambda>i. range_start r + int i * range_step r) [0..<range_len r]"

text \<open>
  The objects \<^verbatim>\<open>Shape.cast\<close> branches on. An enumeration class is the list of its members'
  values, all integers; a \<^verbatim>\<open>ShapeCastable\<close> runs user code and is not modelled; \<open>OtherObj\<close>
  is an object of any other type.
\<close>

datatype shape_obj =
    ShapeObj Shape
  | IntObj int
  | RangeObj py_range
  | EnumObj "int list"
  | OtherObj

definition min_list_int :: "int list \<Rightarrow> int" where
  "min_list_int xs = fold min (tl xs) (hd xs)"

definition max_list_int :: "int list \<Rightarrow> int" where
  "max_list_int xs = fold max (tl xs) (hd xs)"

fun Shape_cast :: "shape_obj \<Rightarrow> error + Shape" where
  "Shape_cast (ShapeObj sh) = Inr sh"
| "Shape_cast (IntObj n) = Shape_init n False"
| "Shape_cast (RangeObj r) =
     bind_err (py_len r) (\<lambda>n.
       if n = 0 then Inr (Shape 0 (range_start r < 0))
       else
         let sgn = (range_start r < 0 \<or> (range_stop r - range_step r) < 0);
             w = max (bits_for (range_start r) sgn) (bits_for (range_stop r - range_step r) sgn)
         in Inr (Shape w sgn))"
| "Shape_cast (EnumObj members) =
     (if members = [] then Inl ValueError
      else
        let min_value = min_list_int members;
            max_value = max_list_int members;
            sgn = (min_value < 0 \<or> max_value < 0);
            w = max (bits_for min_value sgn) (bits_for max_value sgn)
        in Inr (Shape w sgn))"
| "Shape_cast OtherObj = Inl TypeError"

section \<open>Const\<close>

text \<open>
  \<^verbatim>\<open>Const.normalize\<close>. \<^verbatim>\<open>1 << width\<close> is \<open>push_bit width 1\<close>; \<^verbatim>\<open>value >> (width - 1)\<close> with
  width 0 is a shift by \<open>-1\<close>, for which Python raises \<^verbatim>\<open>ValueError\<close> (negative shift count);
  it is only evaluated when \<^verbatim>\<open>signed\<close> holds.
\<close>

definition Const_normalize :: "int \<Rightarrow> Shape \<Rightarrow> error + int" where
  "Const_normalize v shape =
     (let mask = push_bit (width shape) 1 - 1;
          v1 = v AND mask
      in if signed shape
         then (if width shape = 0 then Inl ValueError
               else if drop_bit (width shape - 1) v1 \<noteq> 0 then Inr (v1 OR NOT mask)
               else Inr v1)
         else Inr v1)"

section \<open>Values\<close>

text \<open>
  The node classes of \<^verbatim>\<open>Value\<close>. The source location \<^verbatim>\<open>src_loc\<close> of a node, the attribute
  dictionary and the decoder of a \<^verbatim>\<open>Signal\<close> are left out: no function modelled here reads
  them. \<open>Const v sh\<close> holds the stored \<^verbatim>\<open>value\<close>, \<^verbatim>\<open>width\<close> and \<^verbatim>\<open>signed\<close>; \<open>Signal\<close>, \<open>AnyConst\<close>
  and \<open>AnySeq\<close> carry the \<^verbatim>\<open>duid\<close> that \<^verbatim>\<open>DUID.__init__\<close> gave the object. The elements of an
  \<^verbatim>\<open>ArrayProxy\<close> are held as the Values that \<^verbatim>\<open>_iter_as_values\<close> yields.
\<close>

datatype Value =
    Const (const_value: int) (const_shape: Shape)
  | AnyConst nat Shape
  | AnySeq nat Shape
  | Operator string "Value list"
  | Slice Value int int
  | Part Value Value nat nat
  | Cat "Value list"
  | Repl Value nat
  | Signal nat string Shape int bool
  | ClockSignal string
  | ResetSignal string bool
  | ArrayProxy "Value list" Value
  | Sample Value int "string option"
  | Initial

text \<open>
  \<^verbatim>\<open>Const.__init__\<close>: the shape argument is \<^verbatim>\<open>None\<close>, an integer width, or anything
  \<^verbatim>\<open>Shape.cast\<close> takes.
\<close>

definition Const_init :: "int \<Rightarrow> shape_obj option \<Rightarrow> error + Value" where
  "Const_init v shape =
     bind_err
       (case shape of
          None \<Rightarrow> Inr (Shape (bits_for v False) (v < 0))
        | Some (IntObj w) \<Rightarrow> Shape_init w (v < 0)
        | Some obj \<Rightarrow> Shape_cast obj)
       (\<lambda>sh. bind_err (Const_normalize v sh) (\<lambda>v'. Inr (Const v' sh)))"

subsection \<open>Operator.shape\<close>

definition bitwise_binary_shape :: "Shape \<Rightarrow> Shape \<Rightarrow> Shape" where
  "bitwise_binary_shape a_shape b_shape =
     (let a_bits = width a_shape; a_sign = signed a_shape;
          b_bits = width b_shape; b_sign = signed b_shape
      in if \<not> a_sign \<and> \<not> b_sign then Shape (max a_bits b_bits) False
         else if a_sign \<and> b_sign then Shape (max a_bits b_bits) True
         else if \<not> a_sign \<and> b_sign then Shape (max (a_bits + 1) b_bits) True
         else Shape (max a_bits (b_bits + 1)) True)"

fun Operator_shape :: "string \<Rightarrow> Shape list \<Rightarrow> error + Shape" where
  "Operator_shape operator [a] =
     (if operator \<in> set [''+'', ''~''] then Inr (Shape (width a) (signed a))
      else if operator = ''-'' then Inr (Shape (width a + 1) True)
      else if operator \<in> set [''b'', ''r|'', ''r&'', ''r^''] then Inr (Shape 1 False)
      else if operator = ''u'' then Inr (Shape (width a) False)
      else if operator = ''s'' then Inr (Shape (width a) True)
      else Inl NotImplementedError)"
| "Operator_shape operator [a, b] =
     (if operator \<in> set [''+'', ''-''] then
        (let sh = bitwise_binary_shape a b in Inr (Shape (width sh + 1) (signed sh)))
      else if operator = ''*'' then Inr (Shape (width a + width b) (signed a \<or> signed b))
      else if operator = ''//'' then
        Inr (Shape (width a + (if signed b then 1 else 0)) (signed a \<or> signed b))
      else if operator = ''%'' then Inr (Shape (width b) (signed b))
      else if operator \<in> set [''<'', ''<='', ''=='', ''!='', ''>'', ''>=''] then Inr (Shape 1 False)
      else if operator \<in> set [''&'', ''^'', ''|''] then Inr (bitwise_binary_shape a b)
      else if operator = ''<<'' then
        (if signed b then Inl AssertionError
         else Inr (Shape (width a + 2 ^ width b - 1) (signed a)))
      else if operator = ''>>'' then
        (if signed b then Inl AssertionError else Inr (Shape (width a) (signed a)))
      else Inl NotImplementedError)"
| "Operator_shape operator [s, a, b] =
     (if operator = ''m'' then Inr (bitwise_binary_shape a b) else Inl NotImplementedError)"
| "Operator_shape operator shapes = Inl NotImplementedError"

subsection \<open>ArrayProxy.shape\<close>

text \<open>
  The loop of \<^verbatim>\<open>ArrayProxy.shape\<close> over the element shapes, with its four variables as the
  accumulator \<open>(unsigned_width, signed_width, has_unsigned, has_signed)\<close>, and the decision
  after the loop.
\<close>

fun ArrayProxy_scan :: "Shape list \<Rightarrow> nat \<times> nat \<times> bool \<times> bool \<Rightarrow> nat \<times> nat \<times> bool \<times> bool" where
  "ArrayProxy_scan [] acc = acc"
| "ArrayProxy_scan (e # es) (unsigned_width, signed_width, has_unsigned, has_signed) =
     (if signed e
      then ArrayProxy_scan es (unsigned_width, max signed_width (width e), has_unsigned, True)
      else ArrayProxy_scan es (max unsigned_width (width e), signed_width, True, has_signed))"

definition ArrayProxy_shape :: "Shape list \<Rightarrow> Shape" where
  "ArrayProxy_shape elem_shapes =
     (case ArrayProxy_scan elem_shapes (0, 0, False, False) of
        (unsigned_width, signed_width, has_unsigned, has_signed) \<Rightarrow>
          if has_signed \<and> has_unsigned \<and> unsigned_width \<ge> signed_width
          then signed_shape (unsigned_width + 1)
          else Shape (max unsigned_width signed_width) has_signed)"

text \<open>
  The widths of the unsigned and of the signed shapes of a list, in order: the values the
  loop folds into \<^verbatim>\<open>unsigned_width\<close> and \<^verbatim>\<open>signed_width\<close>.
\<close>

definition unsigned_widths :: "Shape list \<Rightarrow> nat list" where
  "unsigned_widths shs = map width (filter (\<lambda>e. \<not> signed e) shs)"

definition signed_widths :: "Shape list \<Rightarrow> nat list" where
  "signed_widths shs = map width (filter signed shs)"

subsection \<open>Value.shape\<close>

fun shape :: "Value \<Rightarrow> error + Shape" where
  "shape (Const v sh) = Inr sh"
| "shape (AnyConst d sh) = Inr sh"
| "shape (AnySeq d sh) = Inr sh"
| "shape (Operator operator operands) =
     bind_err (collect (map shape operands)) (Operator_shape operator)"
| "shape (Slice v start stop) = Shape_init (stop - start) False"
| "shape (Part v offset w stride) = Inr (Shape w False)"
| "shape (Cat parts) =
     bind_err (collect (map shape parts)) (\<lambda>shs. Inr (Shape (sum_list (map width shs)) False))"
| "shape (Repl v count) = bind_err (shape v) (\<lambda>sh. Inr (Shape (width sh * count) False))"
| "shape (Signal d name sh reset reset_less) = Inr sh"
| "shape (ClockSignal domain) = Inr (Shape 1 False)"
| "shape (ResetSignal domain allow_reset_less) = Inr (Shape 1 False)"
| "shape (ArrayProxy elems index) =
     bind_err (collect (map shape elems)) (\<lambda>shs. Inr (ArrayProxy_shape shs))"
| "shape (Sample v clocks domain) = shape v"
| "shape Initial = Inr (Shape 1 False)"

text \<open>\<^verbatim>\<open>Value.__len__\<close>.\<close>

definition len_value :: "Value \<Rightarrow> error + nat" where
  "len_value v = bind_err (shape v) (\<lambda>sh. Inr (width sh))"

section \<open>Building nodes\<close>

text \<open>
  \<^verbatim>\<open>Value.cast\<close> on the objects modelled: a Value is returned as it is, an integer becomes
  \<^verbatim>\<open>Const(obj)\<close>, any other object is a \<^verbatim>\<open>TypeError\<close>. Enumeration members and
  \<^verbatim>\<open>ValueCastable\<close> objects are not modelled as operands.
\<close>

datatype obj = ObjValue Value | ObjInt int | ObjOther

fun Value_cast :: "obj \<Rightarrow> error + Value" where
  "Value_cast (ObjValue v) = Inr v"
| "Value_cast (ObjInt n) = Const_init n None"
| "Value_cast ObjOther = Inl TypeError"

text \<open>\<^verbatim>\<open>Operator.__init__\<close>: every operand goes through \<^verbatim>\<open>Value.cast\<close>.\<close>

definition Operator_init :: "string \<Rightarrow> obj list \<Rightarrow> error + Value" where
  "Operator_init operator operands =
     bind_err (collect (map Value_cast operands)) (\<lambda>ops. Inr (Operator operator ops))"

text \<open>\<^verbatim>\<open>Value.__check_shamt\<close>, \<^verbatim>\<open>Value.__lshift__\<close> and \<^verbatim>\<open>Value.__rlshift__\<close>.\<close>

definition check_shamt :: "Value \<Rightarrow> error + unit" where
  "check_shamt v =
     bind_err (shape v) (\<lambda>sh. if signed sh then Inl TypeError else Inr ())"

definition lshift :: "Value \<Rightarrow> obj \<Rightarrow> error + Value" where
  "lshift self other =
     bind_err (Value_cast other) (\<lambda>other'.
       bind_err (check_shamt other') (\<lambda>_.
         Operator_init ''<<'' [ObjValue self, ObjValue other']))"

definition rlshift :: "Value \<Rightarrow> obj \<Rightarrow> error + Value" where
  "rlshift self other =
     bind_err (check_shamt self) (\<lambda>_. Operator_init ''<<'' [other, ObjValue self])"

subsection \<open>Signals and the identifier counter\<close>

text \<open>
  \<^verbatim>\<open>DUID.__init__\<close> reads the class counter \<^verbatim>\<open>__next_uid\<close> and increments it; the counter is
  passed in and returned. \<^verbatim>\<open>Signal.__init__\<close> reaches it through \<^verbatim>\<open>Value.__init__\<close> before it
  casts the shape, so the counter has moved even when the cast raises. The name argument
  is \<^verbatim>\<open>None\<close> or a string; \<open>traced_name\<close> is what \<^verbatim>\<open>tracer.get_var_name\<close> returns at the call,
  and \<^verbatim>\<open>name or tracer.get_var_name(...)\<close> takes it when the name is \<^verbatim>\<open>None\<close> or empty. The
  reset value is an integer, and the warning about a reset value wider than the signal is
  not recorded.
\<close>

definition DUID_init :: "nat \<Rightarrow> nat \<times> nat" where
  "DUID_init next_uid = (next_uid, next_uid + 1)"

definition name_or :: "string option \<Rightarrow> string \<Rightarrow> string" where
  "name_or name traced_name =
     (case name of None \<Rightarrow> traced_name | Some s \<Rightarrow> if s = [] then traced_name else s)"

definition Signal_init ::
  "shape_obj option \<Rightarrow> string option \<Rightarrow> string \<Rightarrow> int \<Rightarrow> bool \<Rightarrow> nat \<Rightarrow> (error + Value) \<times> nat" where
  "Signal_init shape_arg name traced_name reset reset_less next_uid =
     (case DUID_init next_uid of
        (duid, next_uid') \<Rightarrow>
          (bind_err
             (case shape_arg of None \<Rightarrow> Inr (unsigned_shape 1) | Some ob \<Rightarrow> Shape_cast ob)
             (\<lambda>sh. Inr (Signal duid (name_or name traced_name) sh reset reset_less)),
           next_uid'))"

section \<open>Array\<close>

text \<open>
  \<^verbatim>\<open>class Array\<close> with its three fields. An index is an integer or a Value (slices are not
  modelled); \<^verbatim>\<open>tracer.get_src_loc()\<close>, the location of the indexing call, is an argument.
  List indexing follows Python: a negative index counts from the end, an index outside
  \<open>range(-n, n)\<close> raises \<^verbatim>\<open>IndexError\<close>, and \<^verbatim>\<open>list.insert\<close> clamps its index.
\<close>

record Array =
  inner :: "Value list"
  proxy_at :: "src_loc option"
  mutable :: bool

definition Array_init :: "Value list \<Rightarrow> Array" where
  "Array_init iterable = \<lparr>inner = iterable, proxy_at = None, mutable = True\<rparr>"

definition list_index :: "'a list \<Rightarrow> int \<Rightarrow> error + nat" where
  "list_index xs i =
     (let n = int (length xs)
      in if - n \<le> i \<and> i < n then Inr (nat (if i < 0 then i + n else i)) else Inl IndexError)"

definition list_delete :: "'a list \<Rightarrow> nat \<Rightarrow> 'a list" where
  "list_delete xs k = take k xs @ drop (Suc k) xs"

definition list_insert :: "'a list \<Rightarrow> int \<Rightarrow> 'a \<Rightarrow> 'a list" where
  "list_insert xs i x =
     (let n = int (length xs);
          j = (if i < 0 then max 0 (i + n) else min i n)
      in take (nat j) xs @ [x] @ drop (nat j) xs)"

definition Array_getitem_value :: "src_loc \<Rightarrow> Array \<Rightarrow> Value \<Rightarrow> Value \<times> Array" where
  "Array_getitem_value loc self index =
     (let self' = (if mutable self then self\<lparr>proxy_at := Some loc, mutable := False\<rparr> else self)
      in (ArrayProxy (inner self') index, self'))"

definition Array_getitem_int :: "Array \<Rightarrow> int \<Rightarrow> error + Value" where
  "Array_getitem_int self index =
     bind_err (list_index (inner self) index) (\<lambda>k. Inr (inner self ! k))"

definition check_mutability :: "Array \<Rightarrow> error + unit" where
  "check_mutability self =
     (if \<not> mutable self
      then (case proxy_at self of None \<Rightarrow> Inl TypeError | Some loc \<Rightarrow> Inl (FrozenArrayError loc))
      else Inr ())"

definition Array_setitem :: "Array \<Rightarrow> int \<Rightarrow> Value \<Rightarrow> error + Array" where
  "Array_setitem self index v =
     bind_err (check_mutability self) (\<lambda>_.
       bind_err (list_index (inner self) index) (\<lambda>k. Inr (self\<lparr>inner := (inner self)[k := v]\<rparr>)))"

definition Array_delitem :: "Array \<Rightarrow> int \<Rightarrow> error + Array" where
  "Array_delitem self index =
     bind_err (check_mutability self) (\<lambda>_.
       bind_err (list_index (inner self) index) (\<lambda>k. Inr (self\<lparr>inner := list_delete (inner self) k\<rparr>)))"

definition Array_insert :: "Array \<Rightarrow> int \<Rightarrow> Value \<Rightarrow> error + Array" where
  "Array_insert self index v =
     bind_err (check_mutability self) (\<lambda>_. Inr (self\<lparr>inner := list_insert (inner self) index v\<rparr>))"

text \<open>
  A client's use of one Array: a sequence of calls. A call that raises leaves the object
  as it was; \<open>Array_run\<close> performs the calls in order and keeps every outcome.
\<close>

datatype array_op =
    GetItemValue src_loc Value
  | GetItemInt int
  | SetItem int Value
  | DelItem int
  | Insert int Value

datatype outcome = Raised error | Returned "Value option"

fun is_value_index :: "array_op \<Rightarrow> bool" where
  "is_value_index (GetItemValue loc v) = True"
| "is_value_index c = False"

fun is_mutation :: "array_op \<Rightarrow> bool" where
  "is_mutation (SetItem i v) = True"
| "is_mutation (DelItem i) = True"
| "is_mutation (Insert i v) = True"
| "is_mutation (GetItemValue loc v) = False"
| "is_mutation (GetItemInt i) = False"

definition after_mutation :: "Array \<Rightarrow> error + Array \<Rightarrow> outcome \<times> Array" where
  "after_mutation self r = (case r of Inl e \<Rightarrow> (Raised e, self) | Inr self' \<Rightarrow> (Returned None, self'))"

fun Array_call :: "Array \<Rightarrow> array_op \<Rightarrow> outcome \<times> Array" where
  "Array_call self (GetItemValue loc index) =
     (case Array_getitem_value loc self index of (proxy, self') \<Rightarrow> (Returned (Some proxy), self'))"
| "Array_call self (GetItemInt index) =
     (case Array_getitem_int self index of
        Inl e \<Rightarrow> (Raised e, self)
      | Inr v \<Rightarrow> (Returned (Some v), self))"
| "Array_call self (SetItem index v) = after_mutation self (Array_setitem self index v)"
| "Array_call self (DelItem index) = after_mutation self (Array_delitem self index)"
| "Array_call self (Insert index v) = after_mutation self (Array_insert self index v)"

fun Array_run :: "Array \<Rightarrow> array_op list \<Rightarrow> outcome list \<times> Array" where
  "Array_run self [] = ([], self)"
| "Array_run self (c # cs) =
     (case Array_call self c of
        (out, self') \<Rightarrow> (case Array_run self' cs of (outs, self'') \<Rightarrow> (out # outs, self'')))"

section \<open>ValueKey\<close>

text \<open>
  \<^verbatim>\<open>ValueKey.__init__\<close> computes a hash by cases on the class of the value, building a
  \<^verbatim>\<open>ValueKey\<close> of every child on the way, and raises \<^verbatim>\<open>TypeError\<close> for a class it has no case
  for (of the classes here, \<^verbatim>\<open>Repl\<close>). The hash value itself is not modelled; \<open>ValueKey_ok\<close>
  says that the constructor returns.
\<close>

fun ValueKey_ok :: "Value \<Rightarrow> bool" where
  "ValueKey_ok (Const v sh) = True"
| "ValueKey_ok (Signal d name sh reset reset_less) = True"
| "ValueKey_ok (AnyConst d sh) = True"
| "ValueKey_ok (AnySeq d sh) = True"
| "ValueKey_ok (ClockSignal domain) = True"
| "ValueKey_ok (ResetSignal domain allow_reset_less) = True"
| "ValueKey_ok (Operator operator operands) = list_all ValueKey_ok operands"
| "ValueKey_ok (Slice v start stop) = ValueKey_ok v"
| "ValueKey_ok (Part v offset w stride) = (ValueKey_ok v \<and> ValueKey_ok offset)"
| "ValueKey_ok (Cat parts) = list_all ValueKey_ok parts"
| "ValueKey_ok (ArrayProxy elems index) = (ValueKey_ok index \<and> list_all ValueKey_ok elems)"
| "ValueKey_ok (Sample v clocks domain) = ValueKey_ok v"
| "ValueKey_ok Initial = True"
| "ValueKey_ok (Repl v count) = False"

datatype ValueKey = ValueKey (key_value: Value)

definition ValueKey_init :: "Value \<Rightarrow> error + ValueKey" where
  "ValueKey_init v = (if ValueKey_ok v then Inr (ValueKey v) else Inl TypeError)"

text \<open>
  \<^verbatim>\<open>ValueKey.__eq__\<close> on the wrapped values. \<open>ValueKey_eq_all as bs\<close> is
  \<^verbatim>\<open>all(ValueKey(a) == ValueKey(b) for a, b in zip(as, bs))\<close>: \<^verbatim>\<open>zip\<close> stops at the shorter
  list, \<^verbatim>\<open>all\<close> at the first \<^verbatim>\<open>False\<close>, and building \<^verbatim>\<open>ValueKey(a)\<close> or \<^verbatim>\<open>ValueKey(b)\<close> can raise.
  \<open>ValueKey_eq_child\<close> is one \<^verbatim>\<open>ValueKey(a) == ValueKey(b)\<close>. \<^verbatim>\<open>and\<close> evaluates its right
  operand only when the left one is true. \<^verbatim>\<open>self.value is other.value\<close>, the identity of two
  objects that each got their \<^verbatim>\<open>duid\<close> from \<^verbatim>\<open>DUID.__init__\<close>, is the equality of the
  \<^verbatim>\<open>duid\<close>s. The first test, \<^verbatim>\<open>isinstance(self.value, type(other.value))\<close>, is the equality of
  the two classes.
\<close>

definition and_then :: "error + bool \<Rightarrow> error + bool \<Rightarrow> error + bool" where
  "and_then a b = (case a of Inl e \<Rightarrow> Inl e | Inr t \<Rightarrow> if t then b else Inr False)"

fun ValueKey_eq :: "Value \<Rightarrow> Value \<Rightarrow> error + bool"
  and ValueKey_eq_child :: "Value \<Rightarrow> Value \<Rightarrow> error + bool"
  and ValueKey_eq_all :: "Value list \<Rightarrow> Value list \<Rightarrow> error + bool"
where
  "ValueKey_eq_child a b =
     (if ValueKey_ok a \<and> ValueKey_ok b then ValueKey_eq a b else Inl TypeError)"
| "ValueKey_eq_all (a # as) (b # bs) =
     (case ValueKey_eq_child a b of
        Inl e \<Rightarrow> Inl e
      | Inr t \<Rightarrow> if t then ValueKey_eq_all as bs else Inr False)"
| "ValueKey_eq_all [] bs = Inr True"
| "ValueKey_eq_all (a # as) [] = Inr True"
| "ValueKey_eq (Const v sh) other =
     (case other of Const v' sh' \<Rightarrow> Inr (v = v') | _ \<Rightarrow> Inr False)"
| "ValueKey_eq (Signal d name sh reset reset_less) other =
     (case other of Signal d' name' sh' reset' reset_less' \<Rightarrow> Inr (d = d') | _ \<Rightarrow> Inr False)"
| "ValueKey_eq (AnyConst d sh) other =
     (case other of AnyConst d' sh' \<Rightarrow> Inr (d = d') | _ \<Rightarrow> Inr False)"
| "ValueKey_eq (AnySeq d sh) other =
     (case other of AnySeq d' sh' \<Rightarrow> Inr (d = d') | _ \<Rightarrow> Inr False)"
| "ValueKey_eq (ClockSignal domain) other =
     (case other of ClockSignal domain' \<Rightarrow> Inr (domain = domain') | _ \<Rightarrow> Inr False)"
| "ValueKey_eq (ResetSignal domain allow_reset_less) other =
     (case other of ResetSignal domain' allow_reset_less' \<Rightarrow> Inr (domain = domain') | _ \<Rightarrow> Inr False)"
| "ValueKey_eq (Operator operator operands) other =
     (case other of
        Operator operator' operands' \<Rightarrow>
          if operator = operator' \<and> length operands = length operands'
          then ValueKey_eq_all operands operands' else Inr False
      | _ \<Rightarrow> Inr False)"
| "ValueKey_eq (Slice v start stop) other =
     (case other of
        Slice v' start' stop' \<Rightarrow>
          and_then (ValueKey_eq_child v v') (Inr (start = start' \<and> stop = stop'))
      | _ \<Rightarrow> Inr False)"
| "ValueKey_eq (Part v offset w stride) other =
     (case other of
        Part v' offset' w' stride' \<Rightarrow>
          and_then (ValueKey_eq_child v v')
            (and_then (ValueKey_eq_child offset offset') (Inr (w = w' \<and> stride = stride')))
      | _ \<Rightarrow> Inr False)"
| "ValueKey_eq (Cat parts) other =
     (case other of Cat parts' \<Rightarrow> ValueKey_eq_all parts parts' | _ \<Rightarrow> Inr False)"
| "ValueKey_eq (ArrayProxy elems index) other =
     (case other of
        ArrayProxy elems' index' \<Rightarrow>
          and_then (ValueKey_eq_child index index')
            (if length elems = length elems' then ValueKey_eq_all elems elems' else Inr False)
      | _ \<Rightarrow> Inr False)"
| "ValueKey_eq (Sample v clocks domain) other =
     (case other of
        Sample v' clocks' domain' \<Rightarrow>
          and_then (ValueKey_eq_child v v') (Inr (clocks = clocks' \<and> domain = domain))
      | _ \<Rightarrow> Inr False)"
| "ValueKey_eq Initial other = (case other of Initial \<Rightarrow> Inr True | _ \<Rightarrow> Inr False)"
| "ValueKey_eq (Repl v count) other =
     (case other of Repl v' count' \<Rightarrow> Inl TypeError | _ \<Rightarrow> Inr False)"

text \<open>The comparison of two keys, \<^verbatim>\<open>ValueKey(a) == ValueKey(b)\<close> with both keys built.\<close>

definition ValueKey_equal :: "ValueKey \<Rightarrow> ValueKey \<Rightarrow> error + bool" where
  "ValueKey_equal k1 k2 = ValueKey_eq (key_value k1) (key_value k2)"

section \<open>Strings\<close>

text \<open>
  A string is a list of characters, one per code point below 256. \<open>py_isspace\<close> lists the
  code points below 256 that \<^verbatim>\<open>str.split()\<close> treats as whitespace, so \<open>remove_whitespace s\<close>
  is \<^verbatim>\<open>''.join(s.split())\<close>. \<open>replace_char\<close> is \<^verbatim>\<open>str.replace\<close> for one-character arguments,
  \<open>format_b\<close> is \<^verbatim>\<open>format(k, 'b')\<close> and \<open>rjust\<close> is \<^verbatim>\<open>str.rjust\<close>. \<open>int_base2\<close> is
  \<^verbatim>\<open>int(s, 2)\<close> on strings of the digits 0 and 1, the only strings that reach it; the empty
  string raises \<^verbatim>\<open>ValueError\<close>.
\<close>

definition py_isspace :: "char \<Rightarrow> bool" where
  "py_isspace c =
     (c \<in> set [CHR 0x09, CHR 0x0A, CHR 0x0B, CHR 0x0C, CHR 0x0D, CHR 0x1C, CHR 0x1D, CHR 0x1E,
               CHR 0x1F, CHR 0x20, CHR 0x85, CHR 0xA0])"

definition remove_whitespace :: "string \<Rightarrow> string" where
  "remove_whitespace s = filter (\<lambda>c. \<not> py_isspace c) s"




fun bin_digits :: "nat \<Rightarrow> string" where
  "bin_digits n =
     (if n < 2 then [if n = 0 then CHR ''0'' else CHR ''1'']
      else bin_digits (n div 2) @ [if n mod 2 = 0 then CHR ''0'' else CHR ''1''])"

declare bin_digits.simps [simp del]

definition format_b :: "int \<Rightarrow> string" where
  "format_b k = (if k < 0 then CHR ''-'' # bin_digits (nat (- k)) else bin_digits (nat k))"

definition rjust :: "string \<Rightarrow> nat \<Rightarrow> char \<Rightarrow> string" where
  "rjust s n fill = replicate (n - length s) fill @ s"

section \<open>Value.matches\<close>










section \<open>Switch\<close>

text \<open>
  The case keys of \<^verbatim>\<open>Switch.__init__\<close>. The key of one case is \<^verbatim>\<open>None\<close>, a single key or a
  tuple of keys; a key is a string, an integer, a member of a plain enumeration (held as
  its integer value) or another object. The statements of a case are kept as given
  (\<^verbatim>\<open>Statement.cast\<close> is not modelled), and \<open>od_update\<close> is the assignment
  \<^verbatim>\<open>self.cases[new_keys] = ...\<close> on an \<^verbatim>\<open>OrderedDict\<close>.
\<close>

datatype switch_key = KeyStr string | KeyInt int | KeyEnum int | KeyOther

datatype case_keys = KeysNone | KeysOne switch_key | KeysTuple "switch_key list"

fun keys_tuple :: "case_keys \<Rightarrow> switch_key list" where
  "keys_tuple KeysNone = []"
| "keys_tuple (KeysOne k) = [k]"
| "keys_tuple (KeysTuple ks) = ks"

definition Switch_key :: "nat \<Rightarrow> switch_key \<Rightarrow> error + string" where
  "Switch_key test_len key =
     (let key_mask = push_bit test_len 1 - 1 in
      bind_err
        (case key of
           KeyStr s \<Rightarrow> Inr (remove_whitespace s)
         | KeyInt k \<Rightarrow> Inr (rjust (format_b (k AND key_mask)) test_len CHR ''0'')
         | KeyEnum k \<Rightarrow> Inr (rjust (format_b (k AND key_mask)) test_len CHR ''0'')
         | KeyOther \<Rightarrow> Inl TypeError)
        (\<lambda>key'. if length key' = test_len then Inr key' else Inl AssertionError))"

fun Switch_keys :: "nat \<Rightarrow> switch_key list \<Rightarrow> string list \<Rightarrow> error + string list" where
  "Switch_keys test_len [] new_keys = Inr new_keys"
| "Switch_keys test_len (key # keys) new_keys =
     bind_err (Switch_key test_len key) (\<lambda>key'. Switch_keys test_len keys (new_keys @ [key']))"

fun od_update :: "'k \<Rightarrow> 'v \<Rightarrow> ('k \<times> 'v) list \<Rightarrow> ('k \<times> 'v) list" where
  "od_update k v [] = [(k, v)]"
| "od_update k v ((k', v') # kvs) =
     (if k = k' then (k, v) # kvs else (k', v') # od_update k v kvs)"

fun Switch_cases ::
  "Value \<Rightarrow> (case_keys \<times> 's) list \<Rightarrow> (string list \<times> 's) list \<Rightarrow> error + (string list \<times> 's) list" where
  "Switch_cases test [] cases = Inr cases"
| "Switch_cases test ((orig_keys, stmts) # rest) cases =
     bind_err (len_value test) (\<lambda>test_len.
       bind_err (Switch_keys test_len (keys_tuple orig_keys) []) (\<lambda>new_keys.
         Switch_cases test rest (od_update new_keys stmts cases)))"

definition Switch_init :: "Value \<Rightarrow> (case_keys \<times> 's) list \<Rightarrow> error + (Value \<times> (string list \<times> 's) list)" where
  "Switch_init test cases = bind_err (Switch_cases test cases []) (\<lambda>cs. Inr (test, cs))"

section \<open>Const.normalize\<close>

lemma mask_shift: "push_bit w (1::int) - 1 = mask w"
  by (simp add: mask_eq_exp_minus_1 push_bit_eq_mult)

lemma take_bit_not_mask: "take_bit w (NOT (mask w :: int)) = 0"
  by (rule bit_eqI) (simp add: bit_simps)

lemma Const_normalize_alt:
  "Const_normalize v sh =
     (if signed sh
      then (if width sh = 0 then Inl ValueError
            else if drop_bit (width sh - 1) (take_bit (width sh) v) \<noteq> 0
                 then Inr (take_bit (width sh) v OR NOT (mask (width sh)))
                 else Inr (take_bit (width sh) v))
      else Inr (take_bit (width sh) v))"
  unfolding Const_normalize_def Let_def mask_shift take_bit_eq_mask by simp

lemma Const_normalize_total:
  "\<not> (signed sh \<and> width sh = 0) \<Longrightarrow> \<exists>r. Const_normalize v sh = Inr r"
  by (auto simp add: Const_normalize_alt)

lemma Const_normalize_fixed:
  "Const_normalize v sh = Inr r \<Longrightarrow> Const_normalize r sh = Inr r"
  by (auto simp add: Const_normalize_alt take_bit_not_mask split: if_splits)

lemma Const_init_stored:
  "Const_init v arg = Inr c \<Longrightarrow> \<exists>sh v'. c = Const v' sh \<and> Const_normalize v sh = Inr v'"
  by (auto simp add: Const_init_def bind_err_def split: sum.splits)

text \<open>
  On every shape but the signed shape of width 0 the first call returns a value and the
  second call returns that value again, and a \<^verbatim>\<open>Const\<close> that was constructed stores a
  value that renormalizing into its own shape leaves unchanged.
\<close>

lemma Const_normalize_twice:
  "(\<not> (signed sh \<and> width sh = 0) \<longrightarrow>
        (\<exists>r. Const_normalize v sh = Inr r \<and> Const_normalize r sh = Inr r))
   \<and> (\<forall>c. Const_init v arg = Inr c \<longrightarrow>
        Const_normalize (const_value c) (const_shape c) = Inr (const_value c))"
proof (intro conjI allI impI)
  assume "\<not> (signed sh \<and> width sh = 0)"
  then obtain r where r: "Const_normalize v sh = Inr r"
    using Const_normalize_total by blast
  then show "\<exists>r. Const_normalize v sh = Inr r \<and> Const_normalize r sh = Inr r"
    using Const_normalize_fixed by blast
next
  fix c assume "Const_init v arg = Inr c"
  then obtain sh' v' where "c = Const v' sh'" "Const_normalize v sh' = Inr v'"
    using Const_init_stored by blast
  then show "Const_normalize (const_value c) (const_shape c) = Inr (const_value c)"
    using Const_normalize_fixed by simp
qed

text \<open>
  Claim C7. On the signed shape of width 0 \<^verbatim>\<open>Const.normalize\<close> returns no value for any
  integer: \<^verbatim>\<open>value >> (width - 1)\<close> is a shift by \<open>-1\<close> and raises \<^verbatim>\<open>ValueError\<close>, so
  \<^verbatim>\<open>normalize(normalize(v, shape), shape)\<close> and \<^verbatim>\<open>normalize(v, shape)\<close> are not equal values
  there. The shape is one the code builds: \<^verbatim>\<open>Shape(0, True)\<close> is accepted,
  \<^verbatim>\<open>Shape.cast(range(-1, -1))\<close> returns it, and \<^verbatim>\<open>Const(0, signed(0))\<close> and \<^verbatim>\<open>Const(-1, 0)\<close>
  raise from it. On the unsigned shape of width 0 the same function returns 0.
\<close>

theorem Const_normalize_signed_zero:
  "Const_normalize v (Shape 0 True) = Inl ValueError
   \<and> Shape_init 0 True = Inr (Shape 0 True)
   \<and> Shape_cast (RangeObj (Range (- 1) (- 1) 1)) = Inr (Shape 0 True)
   \<and> Const_init 0 (Some (ShapeObj (signed_shape 0))) = Inl ValueError
   \<and> Const_init (- 1) (Some (IntObj 0)) = Inl ValueError
   \<and> Const_normalize v (Shape 0 False) = Inr 0"
proof (intro conjI)
  show n: "Const_normalize v (Shape 0 True) = Inl ValueError"
    by (simp add: Const_normalize_def Let_def)
  show i: "Shape_init 0 True = Inr (Shape 0 True)" by (simp add: Shape_init_def)
  show "Shape_cast (RangeObj (Range (- 1) (- 1) 1)) = Inr (Shape 0 True)"
    by (simp add: py_len_def range_len_def bind_err_def)
  show "Const_init 0 (Some (ShapeObj (signed_shape 0))) = Inl ValueError"
    by (simp add: Const_init_def signed_shape_def bind_err_def Const_normalize_def Let_def)
  show "Const_init (- 1) (Some (IntObj 0)) = Inl ValueError"
    by (simp add: Const_init_def i bind_err_def Const_normalize_def Let_def)
  show "Const_normalize v (Shape 0 False) = Inr 0"
    by (simp add: Const_normalize_def Let_def)
qed

section \<open>Operator shapes\<close>

lemma Operator_init_values:
  "Operator_init operator [ObjValue a, ObjValue b] = Inr (Operator operator [a, b])"
  by (simp add: Operator_init_def bind_err_def)

lemma shape_binary_operator:
  "shape a = Inr sa \<Longrightarrow> shape b = Inr sb \<Longrightarrow>
   shape (Operator operator [a, b]) = Operator_shape operator [sa, sb]"
  by (simp add: bind_err_def)

text \<open>
  Claim C1. For Values \<open>a\<close> and \<open>b\<close> with shapes, \<^verbatim>\<open>Operator('+', [a, b])\<close> and
  \<^verbatim>\<open>Operator('-', [a, b])\<close> have the promoted shape with one more bit: both unsigned, the
  larger width, unsigned; both signed, the larger width, signed; mixed, the larger of the
  signed width and the unsigned width plus one, signed. The witness has the spec's three
  examples: unsigned(4) + unsigned(4) is unsigned(5), signed(4) + signed(4) is signed(5),
  unsigned(3) + signed(4) is signed(5).
\<close>

theorem Operator_add_sub_shape:
  assumes "shape a = Inr sa" and "shape b = Inr sb"
    and "operator = ''+'' \<or> operator = ''-''"
  shows "Operator_init operator [ObjValue a, ObjValue b] = Inr (Operator operator [a, b])
    \<and> shape (Operator operator [a, b]) =
        Inr (if \<not> signed sa \<and> \<not> signed sb then Shape (max (width sa) (width sb) + 1) False
             else if signed sa \<and> signed sb then Shape (max (width sa) (width sb) + 1) True
             else if signed sb then Shape (max (width sa + 1) (width sb) + 1) True
             else Shape (max (width sa) (width sb + 1) + 1) True)"
  using assms
  by (auto simp add: Operator_init_values bind_err_def bitwise_binary_shape_def Let_def)

theorem Operator_add_sub_shape_witness:
  "shape (Operator ''+'' [Signal 0 ''a'' (Shape 4 False) 0 False, Signal 1 ''b'' (Shape 4 False) 0 False])
     = Inr (Shape 5 False)
   \<and> shape (Operator ''+'' [Signal 0 ''a'' (Shape 4 True) 0 False, Signal 1 ''b'' (Shape 4 True) 0 False])
     = Inr (Shape 5 True)
   \<and> shape (Operator ''+'' [Signal 0 ''a'' (Shape 3 False) 0 False, Signal 1 ''b'' (Shape 4 True) 0 False])
     = Inr (Shape 5 True)
   \<and> shape (Operator ''-'' [Signal 0 ''a'' (Shape 4 True) 0 False, Signal 1 ''b'' (Shape 4 False) 0 False])
     = Inr (Shape 6 True)"
  using
    Operator_add_sub_shape [of "Signal 0 ''a'' (Shape 4 False) 0 False" "Shape 4 False"
      "Signal 1 ''b'' (Shape 4 False) 0 False" "Shape 4 False" "''+''"]
    Operator_add_sub_shape [of "Signal 0 ''a'' (Shape 4 True) 0 False" "Shape 4 True"
      "Signal 1 ''b'' (Shape 4 True) 0 False" "Shape 4 True" "''+''"]
    Operator_add_sub_shape [of "Signal 0 ''a'' (Shape 3 False) 0 False" "Shape 3 False"
      "Signal 1 ''b'' (Shape 4 True) 0 False" "Shape 4 True" "''+''"]
    Operator_add_sub_shape [of "Signal 0 ''a'' (Shape 4 True) 0 False" "Shape 4 True"
      "Signal 1 ''b'' (Shape 4 False) 0 False" "Shape 4 False" "''-''"]
  by simp

lemma check_shamt_cases:
  "shape b = Inr sb \<Longrightarrow> check_shamt b = (if signed sb then Inl TypeError else Inr ())"
  by (simp add: check_shamt_def bind_err_def)

text \<open>
  Claim C8. \<^verbatim>\<open>a << other\<close> (\<^verbatim>\<open>__lshift__\<close>) and \<^verbatim>\<open>other << a\<close> (\<^verbatim>\<open>__rlshift__\<close>): when the
  shift amount has a signed shape the call raises \<^verbatim>\<open>TypeError\<close> and returns no node; when
  it has an unsigned shape the call returns the \<^verbatim>\<open>Operator\<close> node, whose shape has the
  width of the shifted operand plus \<open>2 ^ w - 1\<close> for a shift amount of width \<open>w\<close>, and the
  signedness of the shifted operand.
\<close>

theorem lshift_shape:
  "(Value_cast other = Inr b \<and> shape b = Inr sb \<and> signed sb \<longrightarrow> lshift a other = Inl TypeError)
   \<and> (Value_cast other = Inr b \<and> shape b = Inr sb \<and> \<not> signed sb \<longrightarrow>
        lshift a other = Inr (Operator ''<<'' [a, b])
        \<and> (shape a = Inr sa \<longrightarrow>
             shape (Operator ''<<'' [a, b]) = Inr (Shape (width sa + 2 ^ width sb - 1) (signed sa))))
   \<and> (shape a = Inr sa \<and> signed sa \<longrightarrow> rlshift a other = Inl TypeError)
   \<and> (shape a = Inr sa \<and> \<not> signed sa \<and> Value_cast other = Inr b \<longrightarrow>
        rlshift a other = Inr (Operator ''<<'' [b, a])
        \<and> (shape b = Inr sb \<longrightarrow>
             shape (Operator ''<<'' [b, a]) = Inr (Shape (width sb + 2 ^ width sa - 1) (signed sb))))"
  by (auto simp add: lshift_def rlshift_def check_shamt_cases bind_err_def Operator_init_def)

theorem lshift_shape_witness:
  "lshift (Signal 0 ''a'' (Shape 4 True) 0 False) (ObjValue (Signal 1 ''b'' (Shape 3 True) 0 False))
     = Inl TypeError
   \<and> lshift (Signal 0 ''a'' (Shape 4 True) 0 False) (ObjInt (- 1)) = Inl TypeError
   \<and> lshift (Signal 0 ''a'' (Shape 4 True) 0 False) (ObjValue (Signal 1 ''b'' (Shape 3 False) 0 False))
     = Inr (Operator ''<<'' [Signal 0 ''a'' (Shape 4 True) 0 False, Signal 1 ''b'' (Shape 3 False) 0 False])
   \<and> shape (Operator ''<<'' [Signal 0 ''a'' (Shape 4 True) 0 False, Signal 1 ''b'' (Shape 3 False) 0 False])
     = Inr (Shape 11 True)"
proof -
  have c: "Value_cast (ObjInt (- 1)) = Inr (Const (- 1) (Shape 1 True))"
    by (simp add: Const_init_def bind_err_def bits_for_def log2_int_def bit_length.simps
        Const_normalize_def Let_def)
  show ?thesis
    using
      lshift_shape [of "ObjValue (Signal 1 ''b'' (Shape 3 True) 0 False)"
        "Signal 1 ''b'' (Shape 3 True) 0 False" "Shape 3 True"
        "Signal 0 ''a'' (Shape 4 True) 0 False" "Shape 4 True"]
      lshift_shape [of "ObjInt (- 1)" "Const (- 1) (Shape 1 True)" "Shape 1 True"
        "Signal 0 ''a'' (Shape 4 True) 0 False" "Shape 4 True"]
      lshift_shape [of "ObjValue (Signal 1 ''b'' (Shape 3 False) 0 False)"
        "Signal 1 ''b'' (Shape 3 False) 0 False" "Shape 3 False"
        "Signal 0 ''a'' (Shape 4 True) 0 False" "Shape 4 True"]
      c
    by simp
qed


section \<open>The shape of an ArrayProxy\<close>

lemma ArrayProxy_scan_fold:
  "ArrayProxy_scan es (uw, sw, hu, hs) =
     (fold max (unsigned_widths es) uw, fold max (signed_widths es) sw,
      hu \<or> unsigned_widths es \<noteq> [], hs \<or> signed_widths es \<noteq> [])"
  by (induction es arbitrary: uw sw hu hs) (auto simp add: unsigned_widths_def signed_widths_def max.commute)

lemma fold_max_zero: "ws \<noteq> [] \<Longrightarrow> fold max ws (0::nat) = Max (set ws)"
  by (cases ws) (simp_all add: Max.set_eq_fold [symmetric])

lemma fold_max_ge: "a \<le> fold max ws (a::nat)"
proof (induction ws arbitrary: a)
  case Nil
  show ?case by simp
next
  case (Cons w ws)
  have "a \<le> max w a" by simp
  also have "\<dots> \<le> fold max ws (max w a)" by (rule Cons.IH)
  finally show ?case by simp
qed

lemma fold_max_upper: "w \<in> set ws \<Longrightarrow> w \<le> fold max ws (a::nat)"
proof (induction ws arbitrary: a)
  case Nil
  then show ?case by simp
next
  case (Cons x xs)
  show ?case
  proof (cases "w = x")
    case True
    have "w \<le> max x a" using True by simp
    also have "\<dots> \<le> fold max xs (max x a)" by (rule fold_max_ge)
    finally show ?thesis by simp
  next
    case False
    with Cons.prems have "w \<in> set xs" by simp
    then show ?thesis using Cons.IH by simp
  qed
qed

lemma fold_max_snoc: "fold max (ws @ [w]) (a::nat) = max w (fold max ws a)"
  by simp

lemma representable_unsigned_mono:
  assumes r: "representable (Shape w False) v" and le: "w \<le> w'"
  shows "representable (Shape w' False) v"
proof -
  have p: "(2::int) ^ w \<le> 2 ^ w'" by (rule power_increasing) (use le in simp_all)
  from r have v: "0 \<le> v" "v < 2 ^ w" by (simp_all add: representable_def)
  then have "v < 2 ^ w'" using p by linarith
  then show ?thesis using v(1) by (simp add: representable_def)
qed

lemma representable_signed_mono:
  assumes r: "representable (Shape w True) v" and le: "w \<le> w'"
  shows "representable (Shape w' True) v"
proof -
  have p: "(2::int) ^ w \<le> 2 ^ w'" by (rule power_increasing) (use le in simp_all)
  from r have v: "- (2 ^ w) \<le> 2 * v" "2 * v < 2 ^ w" by (simp_all add: representable_def)
  then have "- (2 ^ w') \<le> 2 * v" "2 * v < 2 ^ w'" using p by linarith+
  then show ?thesis by (simp add: representable_def)
qed

lemma representable_unsigned_signed:
  assumes r: "representable (Shape w False) v" and less: "w < w'"
  shows "representable (Shape w' True) v"
proof -
  have "(2::int) ^ Suc w \<le> 2 ^ w'" by (rule power_increasing) (use less in simp_all)
  then have p: "2 * (2::int) ^ w \<le> 2 ^ w'" by simp
  have q: "(0::int) \<le> 2 ^ w'" by simp
  from r have v: "0 \<le> v" "v < 2 ^ w" by (simp_all add: representable_def)
  then have "- (2 ^ w') \<le> 2 * v" "2 * v < 2 ^ w'" using p q by linarith+
  then show ?thesis by (simp add: representable_def)
qed

lemma ArrayProxy_shape_fold:
  "ArrayProxy_shape shs =
     (let uw = fold max (unsigned_widths shs) 0; sw = fold max (signed_widths shs) 0;
          hu = (unsigned_widths shs \<noteq> []); hs = (signed_widths shs \<noteq> [])
      in if hs \<and> hu \<and> uw \<ge> sw then Shape (uw + 1) True else Shape (max uw sw) hs)"
  by (simp add: ArrayProxy_shape_def ArrayProxy_scan_fold signed_shape_def Let_def)

lemma ArrayProxy_shape_holds:
  assumes "e \<in> set shs" and "representable e v"
  shows "representable (ArrayProxy_shape shs) v"
proof (cases e)
  case (Shape w s)
  show ?thesis
  proof (cases s)
    case True
    have mem: "w \<in> set (signed_widths shs)"
      using assms(1) Shape True by (force simp add: signed_widths_def)
    then have le: "w \<le> fold max (signed_widths shs) 0" by (rule fold_max_upper)
    have ne: "signed_widths shs \<noteq> []" using mem by auto
    have r: "representable (Shape w True) v" using assms(2) Shape True by simp
    show ?thesis
      using le ne representable_signed_mono [OF r]
      by (auto simp add: ArrayProxy_shape_fold Let_def)
  next
    case False
    have mem: "w \<in> set (unsigned_widths shs)"
      using assms(1) Shape False by (force simp add: unsigned_widths_def)
    then have le: "w \<le> fold max (unsigned_widths shs) 0" by (rule fold_max_upper)
    have ne: "unsigned_widths shs \<noteq> []" using mem by auto
    have r: "representable (Shape w False) v" using assms(2) Shape False by simp
    let ?uw = "fold max (unsigned_widths shs) 0"
    let ?sw = "fold max (signed_widths shs) 0"
    have a: "representable (Shape (?uw + 1) True) v"
      by (rule representable_unsigned_signed [OF r]) (use le in simp)
    have b: "representable (Shape (max ?uw ?sw) False) v"
      by (rule representable_unsigned_mono [OF r]) (use le in simp)
    have c: "\<not> ?sw \<le> ?uw \<Longrightarrow> representable (Shape (max ?uw ?sw) True) v"
      by (rule representable_unsigned_signed [OF r]) (use le in simp)
    show ?thesis
      using a b c ne
      by (cases "signed_widths shs = []"; cases "?sw \<le> ?uw")
         (auto simp add: ArrayProxy_shape_fold Let_def max_def split: if_splits)
  qed
qed

lemma ArrayProxy_shape_single: "ArrayProxy_shape [e] = e"
  by (cases e) (simp add: ArrayProxy_shape_fold unsigned_widths_def signed_widths_def)

lemma ArrayProxy_shape_snoc:
  "shs \<noteq> [] \<Longrightarrow> ArrayProxy_shape (shs @ [e]) = bitwise_binary_shape (ArrayProxy_shape shs) e"
proof -
  assume ne: "shs \<noteq> []"
  have some: "unsigned_widths shs \<noteq> [] \<or> signed_widths shs \<noteq> []"
    using ne by (cases shs) (auto simp add: unsigned_widths_def signed_widths_def)
  have u0: "unsigned_widths shs = [] \<Longrightarrow> fold max (unsigned_widths shs) 0 = 0" by simp
  have s0: "signed_widths shs = [] \<Longrightarrow> fold max (signed_widths shs) 0 = 0" by simp
  have ua: "unsigned_widths (shs @ [e]) = unsigned_widths shs @ (if signed e then [] else [width e])"
    by (simp add: unsigned_widths_def)
  have sa: "signed_widths (shs @ [e]) = signed_widths shs @ (if signed e then [width e] else [])"
    by (simp add: signed_widths_def)
  show ?thesis
    using some u0 s0
    unfolding ArrayProxy_shape_fold ua sa bitwise_binary_shape_def Let_def
    by (cases "signed e"; cases "unsigned_widths shs = []"; cases "signed_widths shs = []")
       (auto simp add: max_def)
qed

lemma ArrayProxy_shape_mux:
  "shs \<noteq> [] \<Longrightarrow> ArrayProxy_shape shs = foldl bitwise_binary_shape (hd shs) (tl shs)"
proof (induction shs rule: rev_induct)
  case Nil
  then show ?case by simp
next
  case (snoc e shs)
  show ?case
  proof (cases "shs = []")
    case True
    then show ?thesis by (simp add: ArrayProxy_shape_single)
  next
    case False
    then have "ArrayProxy_shape shs = foldl bitwise_binary_shape (hd shs) (tl shs)"
      using snoc.IH by simp
    then show ?thesis using False by (simp add: ArrayProxy_shape_snoc)
  qed
qed

lemma collect_Inr: "collect rs = Inr xs \<Longrightarrow> rs = map Inr xs"
proof (induction rs arbitrary: xs)
  case Nil
  then show ?case by simp
next
  case (Cons r rs)
  then show ?case by (cases r) (auto split: sum.splits)
qed

lemma collect_shapes_member:
  assumes "collect (map shape elems) = Inr shs" and "x \<in> set elems" and "shape x = Inr sx"
  shows "sx \<in> set shs"
proof -
  have "map shape elems = map Inr shs" using assms(1) by (rule collect_Inr)
  moreover have "shape x \<in> set (map shape elems)" using assms(2) by simp
  ultimately have "Inr sx \<in> set (map Inr shs :: (error + Shape) list)" using assms(3) by simp
  then show ?thesis by auto
qed

text \<open>
  Claim C3. For a non-empty list of elements that all have shapes, the shape of the
  \<^verbatim>\<open>ArrayProxy\<close> holds every integer that the shape of any element holds, and it is the
  shape of the mux tree over the elements (the fold of the Mux shape rule). When there
  are signed and unsigned elements and the largest unsigned width is at least the largest
  signed width, the shape is signed with the largest unsigned width plus one. The witness
  is the Array of \<^verbatim>\<open>Const(3, unsigned(2))\<close> and \<^verbatim>\<open>Const(-1, signed(2))\<close> indexed by a Value,
  with shape signed(3).
\<close>

theorem ArrayProxy_shape_preserves:
  assumes "elems \<noteq> []" and "collect (map shape elems) = Inr shs"
  shows "shape (ArrayProxy elems index) = Inr (ArrayProxy_shape shs)
    \<and> (\<forall>x \<in> set elems. \<forall>sx v. shape x = Inr sx \<and> representable sx v \<longrightarrow>
          representable (ArrayProxy_shape shs) v)
    \<and> ArrayProxy_shape shs = foldl bitwise_binary_shape (hd shs) (tl shs)
    \<and> (unsigned_widths shs \<noteq> [] \<and> signed_widths shs \<noteq> []
        \<and> Max (set (signed_widths shs)) \<le> Max (set (unsigned_widths shs)) \<longrightarrow>
          ArrayProxy_shape shs = signed_shape (Max (set (unsigned_widths shs)) + 1))"
proof (intro conjI ballI allI impI)
  show "shape (ArrayProxy elems index) = Inr (ArrayProxy_shape shs)"
    using assms(2) by (simp add: bind_err_def)
next
  fix x sx v
  assume "x \<in> set elems" and "shape x = Inr sx \<and> representable sx v"
  then have "sx \<in> set shs" and "representable sx v"
    using collect_shapes_member [OF assms(2)] by blast+
  then show "representable (ArrayProxy_shape shs) v" by (rule ArrayProxy_shape_holds)
next
  have "map shape elems = map Inr shs" using assms(2) by (rule collect_Inr)
  then have "length shs = length elems" by (metis length_map)
  then have "shs \<noteq> []" using assms(1) by auto
  then show "ArrayProxy_shape shs = foldl bitwise_binary_shape (hd shs) (tl shs)"
    by (rule ArrayProxy_shape_mux)
next
  assume h: "unsigned_widths shs \<noteq> [] \<and> signed_widths shs \<noteq> []
    \<and> Max (set (signed_widths shs)) \<le> Max (set (unsigned_widths shs))"
  define uw where "uw = fold max (unsigned_widths shs) 0"
  define sw where "sw = fold max (signed_widths shs) 0"
  have eu: "Max (set (unsigned_widths shs)) = uw"
    using h by (simp add: uw_def fold_max_zero)
  have es: "Max (set (signed_widths shs)) = sw"
    using h by (simp add: sw_def fold_max_zero)
  have le: "sw \<le> uw" using h unfolding eu es by blast
  have "ArrayProxy_shape shs = Shape (uw + 1) True"
    using h le by (simp add: ArrayProxy_shape_fold Let_def flip: uw_def sw_def)
  then show "ArrayProxy_shape shs = signed_shape (Max (set (unsigned_widths shs)) + 1)"
    unfolding eu by (simp add: signed_shape_def)
qed

theorem ArrayProxy_shape_preserves_witness:
  "Const_init 3 (Some (ShapeObj (unsigned_shape 2))) = Inr (Const 3 (Shape 2 False))
   \<and> Const_init (- 1) (Some (ShapeObj (signed_shape 2))) = Inr (Const (- 1) (Shape 2 True))
   \<and> shape (fst (Array_getitem_value (''design.py'', 7)
        (Array_init [Const 3 (Shape 2 False), Const (- 1) (Shape 2 True)])
        (Signal 0 ''i'' (Shape 1 False) 0 False))) = Inr (signed_shape 3)
   \<and> representable (signed_shape 3) 3 \<and> representable (signed_shape 3) (- 1)"
proof -
  have c3: "Const_init 3 (Some (ShapeObj (unsigned_shape 2))) = Inr (Const 3 (Shape 2 False))"
    by (simp add: Const_init_def bind_err_def unsigned_shape_def Const_normalize_def Let_def)
  have c1: "Const_init (- 1) (Some (ShapeObj (signed_shape 2))) = Inr (Const (- 1) (Shape 2 True))"
    by (simp add: Const_init_def bind_err_def signed_shape_def Const_normalize_def Let_def)
  have r: "representable (Shape 2 False) 3" "representable (Shape 2 True) (- 1)"
    by (simp_all add: representable_def)
  have p: "fst (Array_getitem_value (''design.py'', 7)
        (Array_init [Const 3 (Shape 2 False), Const (- 1) (Shape 2 True)])
        (Signal 0 ''i'' (Shape 1 False) 0 False))
      = ArrayProxy [Const 3 (Shape 2 False), Const (- 1) (Shape 2 True)]
          (Signal 0 ''i'' (Shape 1 False) 0 False)"
    by (simp add: Array_getitem_value_def Array_init_def Let_def)
  show ?thesis
    using ArrayProxy_shape_preserves
      [of "[Const 3 (Shape 2 False), Const (- 1) (Shape 2 True)]"
          "[Shape 2 False, Shape 2 True]" "Signal 0 ''i'' (Shape 1 False) 0 False"]
      c3 c1 r p
    by (simp add: unsigned_widths_def signed_widths_def bitwise_binary_shape_def
        signed_shape_def representable_def Let_def)
qed

section \<open>The Array freezes once\<close>

lemma frozen_check: 
  "\<not> mutable a \<Longrightarrow> proxy_at a = Some loc \<Longrightarrow> check_mutability a = Inl (FrozenArrayError loc)"
  by (simp add: check_mutability_def)

lemma mutable_check: "mutable a \<Longrightarrow> check_mutability a = Inr ()"
  by (simp add: check_mutability_def)

lemma frozen_call:
  assumes "\<not> mutable a" and "proxy_at a = Some loc"
  shows "snd (Array_call a c) = a
    \<and> (is_mutation c \<longrightarrow> fst (Array_call a c) = Raised (FrozenArrayError loc))"
  using assms
  by (cases c)
     (auto simp add: Array_getitem_value_def Array_getitem_int_def Array_setitem_def
        Array_delitem_def Array_insert_def after_mutation_def frozen_check bind_err_def Let_def
        split: sum.splits)

lemma frozen_run:
  assumes "\<not> mutable a" and "proxy_at a = Some loc"
  shows "snd (Array_run a cs) = a \<and> length (fst (Array_run a cs)) = length cs
    \<and> (\<forall>j < length cs. is_mutation (cs ! j) \<longrightarrow>
          fst (Array_run a cs) ! j = Raised (FrozenArrayError loc))"
proof (induction cs)
  case Nil
  show ?case by simp
next
  case (Cons c cs)
  have call: "snd (Array_call a c) = a"
    and mut: "is_mutation c \<Longrightarrow> fst (Array_call a c) = Raised (FrozenArrayError loc)"
    using frozen_call [OF assms] by blast+
  obtain out where oc: "Array_call a c = (out, a)" using call by (cases "Array_call a c") simp
  obtain outs where orun: "Array_run a cs = (outs, a)"
    using Cons.IH by (cases "Array_run a cs") simp
  have run: "Array_run a (c # cs) = (out # outs, a)" by (simp add: oc orun)
  have len: "length outs = length cs" using Cons.IH orun by simp
  have rest: "\<forall>j < length cs. is_mutation (cs ! j) \<longrightarrow> outs ! j = Raised (FrozenArrayError loc)"
    using Cons.IH orun by simp
  have first: "is_mutation c \<Longrightarrow> out = Raised (FrozenArrayError loc)" using mut oc by simp
  have "\<forall>j < length (c # cs). is_mutation ((c # cs) ! j) \<longrightarrow>
          (out # outs) ! j = Raised (FrozenArrayError loc)"
  proof (intro allI impI)
    fix j assume "j < length (c # cs)" and "is_mutation ((c # cs) ! j)"
    then show "(out # outs) ! j = Raised (FrozenArrayError loc)"
      using first rest by (cases j) auto
  qed
  then show ?case using run len by simp
qed

lemma mutable_call:
  assumes "mutable a" and "\<not> is_value_index c"
  shows "mutable (snd (Array_call a c))
    \<and> (\<forall>loc. fst (Array_call a c) \<noteq> Raised (FrozenArrayError loc))"
  using assms
  by (cases c)
     (auto simp add: Array_getitem_int_def Array_setitem_def list_index_def
        Array_delitem_def Array_insert_def after_mutation_def mutable_check bind_err_def Let_def
        split: sum.splits)

lemma Array_run_snd_Cons:
  "snd (Array_run a (c # cs)) = snd (Array_run (snd (Array_call a c)) cs)"
  by (auto split: prod.splits)

lemma mutable_run:
  "mutable a \<Longrightarrow> list_all (\<lambda>c. \<not> is_value_index c) cs \<Longrightarrow> mutable (snd (Array_run a cs))"
proof (induction cs arbitrary: a)
  case Nil
  then show ?case by simp
next
  case (Cons c cs)
  have "mutable (snd (Array_call a c))" using mutable_call Cons.prems by simp
  then have "mutable (snd (Array_run (snd (Array_call a c)) cs))"
    using Cons.IH Cons.prems by simp
  then show ?case by (simp only: Array_run_snd_Cons)
qed

text \<open>
  Claim C4. Let \<open>a\<close> be an Array after any calls none of which indexes it with a Value.
  Then \<open>a\<close> is mutable: element assignment and deletion at an index of the list, and
  insertion at any index, return the updated Array. Indexing \<open>a\<close> with a Value at location
  \<open>loc\<close> returns the proxy over its elements and leaves the Array frozen with \<open>loc\<close>
  recorded. From then on, whatever calls follow (further indexing with a Value included),
  the Array stays as it is, and every assignment, deletion and insertion raises the error
  that carries \<open>loc\<close>.
\<close>

theorem Array_freeze_one_way:
  assumes "list_all (\<lambda>c. \<not> is_value_index c) pre"
    and "a = snd (Array_run (Array_init xs) pre)"
    and "frozen = snd (Array_getitem_value loc a index)"
  shows "mutable a
    \<and> (list_index (inner a) i = Inr k \<longrightarrow>
          Array_setitem a i x = Inr (a\<lparr>inner := (inner a)[k := x]\<rparr>)
          \<and> Array_delitem a i = Inr (a\<lparr>inner := list_delete (inner a) k\<rparr>))
    \<and> Array_insert a i x = Inr (a\<lparr>inner := list_insert (inner a) i x\<rparr>)
    \<and> Array_getitem_value loc a index
         = (ArrayProxy (inner a) index, a\<lparr>proxy_at := Some loc, mutable := False\<rparr>)
    \<and> snd (Array_run frozen cs) = frozen
    \<and> length (fst (Array_run frozen cs)) = length cs
    \<and> (\<forall>j < length cs. is_mutation (cs ! j) \<longrightarrow>
          fst (Array_run frozen cs) ! j = Raised (FrozenArrayError loc))"
proof -
  have m: "mutable a"
    unfolding assms(2) by (rule mutable_run) (simp_all add: Array_init_def assms(1))
  have g: "Array_getitem_value loc a index
         = (ArrayProxy (inner a) index, a\<lparr>proxy_at := Some loc, mutable := False\<rparr>)"
    using m by (simp add: Array_getitem_value_def Let_def)
  have f: "\<not> mutable frozen" "proxy_at frozen = Some loc"
    unfolding assms(3) g by simp_all
  show ?thesis
    using m g frozen_run [OF f, of cs]
    by (simp add: Array_setitem_def Array_delitem_def Array_insert_def mutable_check bind_err_def)
qed

theorem Array_freeze_one_way_witness:
  "Array_run (Array_init [Signal 0 ''a'' (Shape 1 False) 0 False, Signal 1 ''b'' (Shape 1 False) 0 False])
     [SetItem 1 (Signal 2 ''c'' (Shape 1 False) 0 False)]
   = ([Returned None],
      \<lparr>inner = [Signal 0 ''a'' (Shape 1 False) 0 False, Signal 2 ''c'' (Shape 1 False) 0 False],
       proxy_at = None, mutable = True\<rparr>)
   \<and> Array_getitem_value (''design.py'', 12)
        \<lparr>inner = [Signal 0 ''a'' (Shape 1 False) 0 False, Signal 2 ''c'' (Shape 1 False) 0 False],
         proxy_at = None, mutable = True\<rparr>
        (Signal 3 ''i'' (Shape 1 False) 0 False)
      = (ArrayProxy [Signal 0 ''a'' (Shape 1 False) 0 False, Signal 2 ''c'' (Shape 1 False) 0 False]
           (Signal 3 ''i'' (Shape 1 False) 0 False),
         \<lparr>inner = [Signal 0 ''a'' (Shape 1 False) 0 False, Signal 2 ''c'' (Shape 1 False) 0 False],
          proxy_at = Some (''design.py'', 12), mutable = False\<rparr>)
   \<and> Array_run
        \<lparr>inner = [Signal 0 ''a'' (Shape 1 False) 0 False, Signal 2 ''c'' (Shape 1 False) 0 False],
         proxy_at = Some (''design.py'', 12), mutable = False\<rparr>
        [SetItem 0 (Signal 2 ''c'' (Shape 1 False) 0 False),
         GetItemValue (''design.py'', 30) (Signal 3 ''i'' (Shape 1 False) 0 False),
         DelItem 0,
         Insert 0 (Signal 2 ''c'' (Shape 1 False) 0 False)]
      = ([Raised (FrozenArrayError (''design.py'', 12)),
          Returned (Some (ArrayProxy
            [Signal 0 ''a'' (Shape 1 False) 0 False, Signal 2 ''c'' (Shape 1 False) 0 False]
            (Signal 3 ''i'' (Shape 1 False) 0 False))),
          Raised (FrozenArrayError (''design.py'', 12)),
          Raised (FrozenArrayError (''design.py'', 12))],
         \<lparr>inner = [Signal 0 ''a'' (Shape 1 False) 0 False, Signal 2 ''c'' (Shape 1 False) 0 False],
          proxy_at = Some (''design.py'', 12), mutable = False\<rparr>)"
proof -
  let ?a = "Signal 0 ''a'' (Shape 1 False) 0 False"
  let ?b = "Signal 1 ''b'' (Shape 1 False) 0 False"
  let ?c = "Signal 2 ''c'' (Shape 1 False) 0 False"
  let ?i = "Signal 3 ''i'' (Shape 1 False) 0 False"
  let ?pre = "[SetItem 1 ?c]"
  let ?arr = "\<lparr>inner = [?a, ?c], proxy_at = None, mutable = True\<rparr>"
  let ?frozen = "\<lparr>inner = [?a, ?c], proxy_at = Some (''design.py'', 12), mutable = False\<rparr>"
  let ?post = "[SetItem 0 ?c, GetItemValue (''design.py'', 30) ?i, DelItem 0, Insert 0 ?c]"
  have run: "Array_run (Array_init [?a, ?b]) ?pre = ([Returned None], ?arr)"
    by (simp add: Array_init_def Array_setitem_def check_mutability_def list_index_def
        after_mutation_def bind_err_def Let_def)
  have h1: "list_all (\<lambda>c. \<not> is_value_index c) ?pre" by simp
  have h2: "?arr = snd (Array_run (Array_init [?a, ?b]) ?pre)" by (simp only: run snd_conv)
  have h3: "?frozen = snd (Array_getitem_value (''design.py'', 12) ?arr ?i)"
    by (simp add: Array_getitem_value_def Let_def)
  have out: "fst (Array_run ?frozen ?post)
      = [Raised (FrozenArrayError (''design.py'', 12)),
         Returned (Some (ArrayProxy [?a, ?c] ?i)),
         Raised (FrozenArrayError (''design.py'', 12)),
         Raised (FrozenArrayError (''design.py'', 12))]"
    by (simp add: Array_setitem_def Array_delitem_def Array_insert_def
        Array_getitem_value_def check_mutability_def after_mutation_def bind_err_def Let_def)
  have "snd (Array_run ?frozen ?post) = ?frozen"
    using Array_freeze_one_way [OF h1 h2 h3, of 0 0 ?c ?post] by blast
  with out have "Array_run ?frozen ?post = (fst (Array_run ?frozen ?post), ?frozen)"
    by (metis prod.collapse)
  with out run show ?thesis
    by (simp add: Array_getitem_value_def Let_def)
qed

section \<open>Shape.cast of a range\<close>

text \<open>
  \<open>bits_for\<close> gives a width that holds its argument, and for a range of step 1 the two
  ends that \<^verbatim>\<open>Shape.cast\<close> looks at are the least and the greatest element: the shape
  holds every element and is signed exactly when an element is negative, when the range
  is short enough for \<^verbatim>\<open>len\<close>.
\<close>

lemma bit_length_bound: "m < 2 ^ bit_length m"
proof (induction m rule: bit_length.induct)
  case (1 m)
  show ?case
  proof (cases "m = 0")
    case True
    then show ?thesis by (simp add: bit_length.simps)
  next
    case False
    then have "m div 2 < 2 ^ bit_length (m div 2)" using "1.IH" by simp
    then have "m < 2 * 2 ^ bit_length (m div 2)" by linarith
    then show ?thesis using False by (subst bit_length.simps) simp
  qed
qed

lemma bit_length_int_bound: "0 \<le> k \<Longrightarrow> k < 2 ^ bit_length (nat k)"
proof -
  assume "0 \<le> k"
  then have "k = int (nat k)" by simp
  also have "\<dots> < int (2 ^ bit_length (nat k))" using bit_length_bound [of "nat k"] by linarith
  finally show ?thesis by simp
qed

lemma bits_for_holds: "representable (Shape (bits_for n sign_bit) (sign_bit \<or> n < 0)) n"
proof (cases "n > 0")
  case True
  have "n < 2 ^ bit_length (nat n)" using True by (simp add: bit_length_int_bound)
  then show ?thesis using True by (simp add: bits_for_def log2_int_def representable_def)
next
  case False
  show ?thesis
  proof (cases "n = 0")
    case True
    then show ?thesis by (simp add: bits_for_def log2_int_def representable_def)
  next
    case False
    with \<open>\<not> n > 0\<close> have neg: "n < 0" by simp
    have "- n - 1 < 2 ^ bit_length (nat (- n - 1))" using neg by (simp add: bit_length_int_bound)
    then show ?thesis using neg by (simp add: bits_for_def log2_int_def representable_def)
  qed
qed

lemma representable_widen:
  "representable (Shape w s) v \<Longrightarrow> w \<le> w' \<Longrightarrow> representable (Shape w' s) v"
  by (cases s) (auto intro: representable_signed_mono representable_unsigned_mono)

lemma representable_between:
  "representable sh lo \<Longrightarrow> representable sh hi \<Longrightarrow> lo \<le> e \<Longrightarrow> e \<le> hi \<Longrightarrow> representable sh e"
  by (auto simp add: representable_def split: if_splits)

lemma range_elems_unit_step:
  assumes "a < b"
  shows "set (range_elems (Range a b 1)) = {a..<b}"
proof -
  have len: "range_len (Range a b 1) = nat (b - a)" using assms by (simp add: range_len_def)
  show ?thesis
  proof (rule set_eqI)
    fix e
    show "e \<in> set (range_elems (Range a b 1)) \<longleftrightarrow> e \<in> {a..<b}"
    proof
      assume "e \<in> set (range_elems (Range a b 1))"
      then obtain i where "i < nat (b - a)" "e = a + int i"
        by (auto simp add: range_elems_def len)
      then show "e \<in> {a..<b}" by auto
    next
      assume "e \<in> {a..<b}"
      then have "nat (e - a) < nat (b - a)" "e = a + int (nat (e - a))" by auto
      then show "e \<in> set (range_elems (Range a b 1))"
        unfolding range_elems_def len by (auto simp add: image_iff intro!: bexI [of _ "nat (e - a)"])
    qed
  qed
qed

lemma Shape_cast_range_unit_step:
  assumes "a < b" and "nat (b - a) \<le> sys_maxsize"
  shows "\<exists>sh. Shape_cast (RangeObj (Range a b 1)) = Inr sh
    \<and> (\<forall>e \<in> set (range_elems (Range a b 1)). representable sh e)
    \<and> (signed sh \<longleftrightarrow> (\<exists>e \<in> set (range_elems (Range a b 1)). e < 0))"
proof -
  define sgn where "sgn = (a < 0 \<or> b - 1 < 0)"
  define w where "w = max (bits_for a sgn) (bits_for (b - 1) sgn)"
  have len: "range_len (Range a b 1) \<noteq> 0" "range_len (Range a b 1) \<le> sys_maxsize"
    using assms by (simp_all add: range_len_def)
  have cast: "Shape_cast (RangeObj (Range a b 1)) = Inr (Shape w sgn)"
    using len by (simp add: py_len_def bind_err_def Let_def w_def sgn_def)
  have sa: "(sgn \<or> a < 0) = sgn" and sb: "(sgn \<or> b - 1 < 0) = sgn" by (auto simp add: sgn_def)
  have "representable (Shape (bits_for a sgn) sgn) a" using bits_for_holds [of a sgn] sa by simp
  then have lo: "representable (Shape w sgn) a" by (rule representable_widen) (simp add: w_def)
  have "representable (Shape (bits_for (b - 1) sgn) sgn) (b - 1)"
    using bits_for_holds [of "b - 1" sgn] sb by simp
  then have hi: "representable (Shape w sgn) (b - 1)" by (rule representable_widen) (simp add: w_def)
  have holds: "\<forall>e \<in> set (range_elems (Range a b 1)). representable (Shape w sgn) e"
    unfolding range_elems_unit_step [OF assms(1)]
    using representable_between [OF lo hi] by auto
  have sign: "sgn \<longleftrightarrow> (\<exists>e \<in> set (range_elems (Range a b 1)). e < 0)"
    unfolding range_elems_unit_step [OF assms(1)] sgn_def using assms(1) by auto
  show ?thesis using cast holds sign by simp
qed

text \<open>
  Claim C2. \<^verbatim>\<open>Shape.cast\<close> takes \<^verbatim>\<open>stop - step\<close> for the last element of a range. For
  \<^verbatim>\<open>range(0, 10, 3)\<close>, whose elements are 0, 3, 6, 9, it returns what it returns for
  \<^verbatim>\<open>range(0, 8)\<close>, whatever \<^verbatim>\<open>bits_for\<close> computes: unsigned(3), which does not hold 9. For \<^verbatim>\<open>range(0, 1, 3)\<close>, whose only element is 0, it returns a signed shape, and
  for the empty \<^verbatim>\<open>range(-1, -1)\<close> it returns a signed shape as well, though no element is
  negative.
\<close>

theorem Shape_cast_range_step:
  "Shape_cast (RangeObj (Range 0 10 3)) = Shape_cast (RangeObj (Range 0 8 1))
   \<and> Shape_cast (RangeObj (Range 0 10 3)) = Inr (Shape 3 False)
   \<and> range_elems (Range 0 10 3) = [0, 3, 6, 9]
   \<and> \<not> representable (Shape 3 False) 9
   \<and> Shape_cast (RangeObj (Range 0 1 3)) = Inr (Shape 2 True)
   \<and> range_elems (Range 0 1 3) = [0]
   \<and> Shape_cast (RangeObj (Range (- 1) (- 1) 1)) = Inr (Shape 0 True)
   \<and> range_elems (Range (- 1) (- 1) 1) = []"
proof (intro conjI)
  show "Shape_cast (RangeObj (Range 0 10 3)) = Shape_cast (RangeObj (Range 0 8 1))"
    by (simp add: py_len_def range_len_def sys_maxsize_def bind_err_def)
  have b0: "bits_for 0 False = 1" and b7: "bits_for 7 False = 3" by code_simp+
  show "Shape_cast (RangeObj (Range 0 10 3)) = Inr (Shape 3 False)"
    by (simp add: py_len_def range_len_def sys_maxsize_def bind_err_def b0 b7)
  show "range_elems (Range 0 10 3) = [0, 3, 6, 9]" by code_simp
  show "\<not> representable (Shape 3 False) 9" by (simp add: representable_def)
  have s0: "bits_for 0 True = 1" and s2: "bits_for (- 2) True = 2" by code_simp+
  show "Shape_cast (RangeObj (Range 0 1 3)) = Inr (Shape 2 True)"
    by (simp add: py_len_def range_len_def sys_maxsize_def bind_err_def s0 s2)
  show "range_elems (Range 0 1 3) = [0]" by code_simp
  show "Shape_cast (RangeObj (Range (- 1) (- 1) 1)) = Inr (Shape 0 True)"
    by (simp add: py_len_def range_len_def bind_err_def)
  show "range_elems (Range (- 1) (- 1) 1) = []" by code_simp
qed

section \<open>ValueKey equality\<close>

text \<open>
  What the comparison does get right: two Signals compare equal exactly when they are the
  same object, two Signals built one after the other are different objects, and two
  lists of keyed parts of the same length compare equal exactly when they do so part by
  part.
\<close>

lemma ValueKey_eq_Signal_distinct:
  "ValueKey_eq (Signal d name sh reset reset_less) (Signal d' name' sh' reset' reset_less') = Inr (d = d')"
  by simp

lemma Signal_init_distinct_keys:
  assumes "Signal_init shape_arg name traced_name reset reset_less uid = (Inr a, uid')"
    and "Signal_init shape_arg name traced_name reset reset_less uid' = (Inr b, uid'')"
  shows "ValueKey_eq a b = Inr False"
  using assms
  by (auto simp add: Signal_init_def DUID_init_def bind_err_def split: sum.splits option.splits)

lemma ValueKey_eq_all_same_length:
  assumes "length as = length bs" and "list_all ValueKey_ok as" and "list_all ValueKey_ok bs"
  shows "ValueKey_eq_all as bs = Inr True \<longleftrightarrow> (\<forall>i < length as. ValueKey_eq (as ! i) (bs ! i) = Inr True)"
  using assms
proof (induction as bs rule: list_induct2)
  case Nil
  show ?case by simp
next
  case (Cons a as b bs)
  have ih: "ValueKey_eq_all as bs = Inr True \<longleftrightarrow> (\<forall>i < length as. ValueKey_eq (as ! i) (bs ! i) = Inr True)"
    using Cons by simp
  have ok: "ValueKey_ok a" "ValueKey_ok b" using Cons.prems by simp_all
  have child: "ValueKey_eq_child a b = ValueKey_eq a b" using ok by simp
  have step: "ValueKey_eq_all (a # as) (b # bs)
      = (case ValueKey_eq a b of Inl e \<Rightarrow> Inl e
         | Inr t \<Rightarrow> if t then ValueKey_eq_all as bs else Inr False)"
    by (simp only: ValueKey_eq_all.simps child)
  show ?case
  proof (cases "ValueKey_eq a b")
    case (Inl e)
    then show ?thesis unfolding step by (auto simp add: All_less_Suc2)
  next
    case (Inr t)
    then show ?thesis unfolding step using ih by (cases t) (auto simp add: All_less_Suc2)
  qed
qed


text \<open>
  Claim C5. The \<^verbatim>\<open>Cat\<close> case of \<^verbatim>\<open>ValueKey.__eq__\<close> compares the parts that \<^verbatim>\<open>zip\<close> pairs
  and does not compare the numbers of parts: the keys of \<^verbatim>\<open>Cat(a)\<close> and \<^verbatim>\<open>Cat(a, b)\<close> are
  both built and compare equal, as do the keys of \<^verbatim>\<open>Cat()\<close> and \<^verbatim>\<open>Cat(a)\<close>.
\<close>

theorem ValueKey_eq_Cat_lengths:
  "ValueKey_init (Cat [Signal 0 ''a'' (Shape 1 False) 0 False])
     = Inr (ValueKey (Cat [Signal 0 ''a'' (Shape 1 False) 0 False]))
   \<and> ValueKey_init (Cat [Signal 0 ''a'' (Shape 1 False) 0 False, Signal 1 ''b'' (Shape 1 False) 0 False])
     = Inr (ValueKey (Cat [Signal 0 ''a'' (Shape 1 False) 0 False, Signal 1 ''b'' (Shape 1 False) 0 False]))
   \<and> ValueKey_equal
        (ValueKey (Cat [Signal 0 ''a'' (Shape 1 False) 0 False]))
        (ValueKey (Cat [Signal 0 ''a'' (Shape 1 False) 0 False, Signal 1 ''b'' (Shape 1 False) 0 False]))
     = Inr True
   \<and> ValueKey_equal (ValueKey (Cat []))
        (ValueKey (Cat [Signal 0 ''a'' (Shape 1 False) 0 False]))
     = Inr True"
  by (simp add: ValueKey_init_def ValueKey_equal_def)

text \<open>
  Claim C6. The \<^verbatim>\<open>Sample\<close> case of \<^verbatim>\<open>ValueKey.__eq__\<close> compares the domain of the left
  value with itself: the keys of two Samples of the same signal and clock count in the
  domains \<^verbatim>\<open>sync\<close> and \<^verbatim>\<open>pix\<close> are both built and compare equal.
\<close>

theorem ValueKey_eq_Sample_domains:
  "ValueKey_init (Sample (Signal 0 ''a'' (Shape 1 False) 0 False) 1 (Some ''sync''))
     = Inr (ValueKey (Sample (Signal 0 ''a'' (Shape 1 False) 0 False) 1 (Some ''sync'')))
   \<and> ValueKey_init (Sample (Signal 0 ''a'' (Shape 1 False) 0 False) 1 (Some ''pix''))
     = Inr (ValueKey (Sample (Signal 0 ''a'' (Shape 1 False) 0 False) 1 (Some ''pix'')))
   \<and> ValueKey_equal
        (ValueKey (Sample (Signal 0 ''a'' (Shape 1 False) 0 False) 1 (Some ''sync'')))
        (ValueKey (Sample (Signal 0 ''a'' (Shape 1 False) 0 False) 1 (Some ''pix'')))
     = Inr True"
  by (simp add: ValueKey_init_def ValueKey_equal_def and_then_def)

section \<open>Switch keys\<close>

text \<open>
  Claim C10. For a test of width 0 an integer key, or the value of an enumeration member,
  is masked to 0 and formatted as the one-character string \<^verbatim>\<open>0\<close>, which \<^verbatim>\<open>rjust\<close> leaves
  as it is; the assertion that the key has the length of the test then fails, and
  \<^verbatim>\<open>Switch.__init__\<close> raises \<^verbatim>\<open>AssertionError\<close>.
\<close>

theorem Switch_key_zero_width:
  "Switch_key 0 (KeyInt k) = Inl AssertionError
   \<and> Switch_key 0 (KeyEnum k) = Inl AssertionError
   \<and> Switch_init (Signal 0 ''s'' (Shape 0 False) 0 False) [(KeysOne (KeyInt 0), ())]
       = Inl AssertionError"
  by (simp add: Switch_key_def Switch_init_def len_value_def bind_err_def format_b_def
      bin_digits.simps rjust_def)

text \<open>
  For a test of positive width the integer key is the binary string of the masked value,
  padded with zeros to the width of the test, and no exception is raised.
\<close>

lemma bin_digits_length: "0 < n \<Longrightarrow> m < 2 ^ n \<Longrightarrow> length (bin_digits m) \<le> n"
proof (induction m arbitrary: n rule: bin_digits.induct)
  case (1 m)
  show ?case
  proof (cases "m < 2")
    case True
    then show ?thesis using "1.prems" by (simp add: bin_digits.simps)
  next
    case False
    obtain n' where n: "n = Suc n'" using "1.prems"(1) by (cases n) auto
    have "m div 2 < 2 ^ n'" using "1.prems"(2) n by (simp add: less_mult_imp_div_less mult.commute)
    moreover have "0 < n'"
    proof (rule ccontr)
      assume "\<not> 0 < n'"
      then have "n = 1" using n by simp
      then show False using "1.prems"(2) False by simp
    qed
    ultimately have "length (bin_digits (m div 2)) \<le> n'" using "1.IH" False by simp
    then show ?thesis using False n by (subst bin_digits.simps) simp
  qed
qed

lemma Switch_key_int_positive_width:
  assumes "0 < n"
  shows "Switch_key n (KeyInt k) = Inr (rjust (format_b (k AND mask n)) n CHR ''0'')
    \<and> length (rjust (format_b (k AND mask n)) n CHR ''0'') = n"
proof -
  have m: "push_bit n (1::int) - 1 = mask n" by (rule mask_shift)
  have nn: "0 \<le> k AND mask n" by simp
  have "k AND mask n < 2 ^ n" by (simp flip: take_bit_eq_mask)
  then have "nat (k AND mask n) < 2 ^ n" using nn by (simp add: nat_less_iff)
  then have "length (bin_digits (nat (k AND mask n))) \<le> n"
    using assms bin_digits_length by blast
  then have len: "length (rjust (format_b (k AND mask n)) n CHR ''0'') = n"
    using nn by (simp add: rjust_def format_b_def)
  show ?thesis
    unfolding Switch_key_def Let_def m using len by (simp add: bind_err_def)
qed

section \<open>Patterns of Value.matches\<close>

lemma bind_err_assoc:
  "bind_err (bind_err r f) g = bind_err r (\<lambda>x. bind_err (f x) g)"
  by (cases r) (simp_all add: bind_err_def)











end
